theory Spec2Isabelle
  imports Main "HOL-Library.Word"
begin

section \<open>The GPU runtime, as this layer sees it\<close>

text \<open>
  \<^verbatim>\<open>c10/cuda/CUDAFunctions.h\<close> wraps calls into the CUDA (or HIP) runtime. The runtime
  is not part of the repository: it is a parameter of the model. Every runtime call
  returns a native status code \<^verbatim>\<open>cudaError_t\<close>, \<^verbatim>\<open>cudaSuccess\<close> being the only
  outcome that is not an error.
\<close>

type_synonym cudaError_t = int

definition cudaSuccess :: cudaError_t where
  "cudaSuccess = 0"

type_synonym ptr = "64 word"
type_synonym cudaStream_t = "64 word"
type_synonym int64_t = "64 word"
type_synonym DeviceIndex = int

datatype cudaMemcpyKind =
    cudaMemcpyHostToHost
  | cudaMemcpyHostToDevice
  | cudaMemcpyDeviceToHost
  | cudaMemcpyDeviceToDevice
  | cudaMemcpyDefault

text \<open>The runtime entry points this layer calls, with the arguments of each call.\<close>

datatype rt_call =
    GetDeviceCount
  | GetDevice
  | SetDevice DeviceIndex
  | DeviceSynchronize
  | StreamSynchronize cudaStream_t
  | MemcpyAsync ptr ptr int64_t cudaMemcpyKind cudaStream_t
  | MemcpyWithStream ptr ptr int64_t cudaMemcpyKind cudaStream_t

text \<open>
  A runtime over its own hidden state \<open>'r\<close>: \<open>respond\<close> answers a call with a status
  code and the value of the call's output parameter (read only by \<^verbatim>\<open>cudaGetDeviceCount\<close>
  and \<^verbatim>\<open>cudaGetDevice\<close>), and moves the hidden state; \<open>describe\<close> is the lookup of a
  status code's description (\<^verbatim>\<open>cudaGetErrorString\<close>).
\<close>

record 'r runtime =
  respond :: "rt_call \<Rightarrow> 'r \<Rightarrow> (cudaError_t \<times> int) \<times> 'r"
  describe :: "cudaError_t \<Rightarrow> string"

section \<open>Warning state\<close>

text \<open>
  \<^verbatim>\<open>enum class SyncWarningLevel { L_DISABLED = 0, L_WARN, L_ERROR };\<close> and
  \<^verbatim>\<open>class WarningState\<close>, whose only member is
  \<^verbatim>\<open>SyncWarningLevel sync_warning_level = SyncWarningLevel::L_DISABLED;\<close>
\<close>

datatype SyncWarningLevel = L_DISABLED | L_WARN | L_ERROR

record WarningState =
  sync_warning_level :: SyncWarningLevel

text \<open>A freshly constructed \<^verbatim>\<open>WarningState\<close>: the member's default initialiser.\<close>

definition WarningState_new :: WarningState where
  "WarningState_new = \<lparr>sync_warning_level = L_DISABLED\<rparr>"

definition set_sync_warning_level :: "SyncWarningLevel \<Rightarrow> WarningState \<Rightarrow> WarningState" where
  "set_sync_warning_level l w = w\<lparr>sync_warning_level := l\<rparr>"

definition get_sync_warning_level :: "WarningState \<Rightarrow> SyncWarningLevel" where
  "get_sync_warning_level w = sync_warning_level w"

section \<open>Process state, events and errors\<close>

text \<open>
  What can be observed of a run: each call into the runtime, each entry into
  \<^verbatim>\<open>warn_or_error_on_sync\<close>, and each diagnostic that is logged.
\<close>

datatype event =
    RuntimeCall rt_call
  | HookInvoked
  | SyncDiagnostic
  | DeviceCountDiagnostic

text \<open>
  The errors this layer raises: a failed runtime call (status code and description), no
  device available, and a synchronisation under level \<^verbatim>\<open>L_ERROR\<close>.
\<close>

datatype error =
    RuntimeError cudaError_t string
  | NoDevicesError
  | SyncError

text \<open>
  The process-wide state: the hidden state of the runtime, the object that
  \<^verbatim>\<open>warning_state()\<close> returns a reference to, the memoised device count (\<open>None\<close> until
  the first call of \<^verbatim>\<open>device_count\<close>), and the events so far, oldest first.
\<close>

record 'r process =
  rt_state :: 'r
  warning_state :: WarningState
  device_count_cache :: "int option"
  trace :: "event list"

text \<open>
  Modelled from the spec: \<^verbatim>\<open>warning_state()\<close> is declared in the header and defined
  elsewhere. The spec has the singleton created on first access, holding the default
  level; a process therefore starts with a freshly constructed \<^verbatim>\<open>WarningState\<close>, an
  empty device-count cache and no events.
\<close>

definition process_start :: "'r \<Rightarrow> 'r process" where
  "process_start r =
     \<lparr>rt_state = r, warning_state = WarningState_new, device_count_cache = None, trace = []\<rparr>"

text \<open>\<^verbatim>\<open>warning_state().set_sync_warning_level(l)\<close>: the mutator, through the reference.\<close>

definition warning_state_set :: "SyncWarningLevel \<Rightarrow> 'r process \<Rightarrow> 'r process" where
  "warning_state_set l p = p\<lparr>warning_state := set_sync_warning_level l (warning_state p)\<rparr>"

text \<open>The runtime calls among a list of events, and the number of hook entries.\<close>

fun runtime_calls :: "event list \<Rightarrow> rt_call list" where
  "runtime_calls [] = []"
| "runtime_calls (RuntimeCall c # es) = c # runtime_calls es"
| "runtime_calls (_ # es) = runtime_calls es"

definition hook_invocations :: "event list \<Rightarrow> nat" where
  "hook_invocations es = count_list es HookInvoked"

text \<open>
  A computation either returns a value or raises an error, and leaves a process state
  in both cases. \<open>and_then\<close> is the sequencing of two statements: an error raised by
  the first leaves the function at once.
\<close>

type_synonym ('r, 'a) outcome = "(error + 'a) \<times> 'r process"

definition and_then ::
  "('r process \<Rightarrow> ('r, 'a) outcome) \<Rightarrow> ('a \<Rightarrow> 'r process \<Rightarrow> ('r, 'b) outcome) \<Rightarrow>
   'r process \<Rightarrow> ('r, 'b) outcome" where
  "and_then m k p = (case m p of (Inl e, p') \<Rightarrow> (Inl e, p') | (Inr a, p') \<Rightarrow> k a p')"

section \<open>Calls into the runtime\<close>

text \<open>A call is answered by the runtime and recorded in the trace.\<close>

definition runtime_call ::
  "'r runtime \<Rightarrow> rt_call \<Rightarrow> 'r process \<Rightarrow> (cudaError_t \<times> int) \<times> 'r process" where
  "runtime_call rt c p =
     (case respond rt c (rt_state p) of
        (ans, r') \<Rightarrow> (ans, p\<lparr>rt_state := r', trace := trace p @ [RuntimeCall c]\<rparr>))"

definition cudaStreamSynchronize ::
  "'r runtime \<Rightarrow> cudaStream_t \<Rightarrow> 'r process \<Rightarrow> cudaError_t \<times> 'r process" where
  "cudaStreamSynchronize rt stream p =
     (case runtime_call rt (StreamSynchronize stream) p of ((err, _), p') \<Rightarrow> (err, p'))"

definition cudaMemcpyAsync ::
  "'r runtime \<Rightarrow> ptr \<Rightarrow> ptr \<Rightarrow> int64_t \<Rightarrow> cudaMemcpyKind \<Rightarrow> cudaStream_t \<Rightarrow>
   'r process \<Rightarrow> cudaError_t \<times> 'r process" where
  "cudaMemcpyAsync rt dst src nbytes kind stream p =
     (case runtime_call rt (MemcpyAsync dst src nbytes kind stream) p of
        ((err, _), p') \<Rightarrow> (err, p'))"

definition hipMemcpyWithStream ::
  "'r runtime \<Rightarrow> ptr \<Rightarrow> ptr \<Rightarrow> int64_t \<Rightarrow> cudaMemcpyKind \<Rightarrow> cudaStream_t \<Rightarrow>
   'r process \<Rightarrow> cudaError_t \<times> 'r process" where
  "hipMemcpyWithStream rt dst src nbytes kind stream p =
     (case runtime_call rt (MemcpyWithStream dst src nbytes kind stream) p of
        ((err, _), p') \<Rightarrow> (err, p'))"

definition cudaDeviceSynchronize ::
  "'r runtime \<Rightarrow> 'r process \<Rightarrow> cudaError_t \<times> 'r process" where
  "cudaDeviceSynchronize rt p =
     (case runtime_call rt DeviceSynchronize p of ((err, _), p') \<Rightarrow> (err, p'))"

definition cudaGetDeviceCount ::
  "'r runtime \<Rightarrow> 'r process \<Rightarrow> (cudaError_t \<times> int) \<times> 'r process" where
  "cudaGetDeviceCount rt p = runtime_call rt GetDeviceCount p"

definition cudaGetDevice ::
  "'r runtime \<Rightarrow> 'r process \<Rightarrow> (cudaError_t \<times> int) \<times> 'r process" where
  "cudaGetDevice rt p = runtime_call rt GetDevice p"

definition cudaSetDevice ::
  "'r runtime \<Rightarrow> DeviceIndex \<Rightarrow> 'r process \<Rightarrow> cudaError_t \<times> 'r process" where
  "cudaSetDevice rt device p =
     (case runtime_call rt (SetDevice device) p of ((err, _), p') \<Rightarrow> (err, p'))"

section \<open>Error translation\<close>

text \<open>
  Modelled from the spec: the macro \<^verbatim>\<open>C10_CUDA_CHECK\<close> comes from
  \<^verbatim>\<open>c10/cuda/CUDAException.h\<close>, which is not among the sources. The spec: given a native
  status code, if it denotes success, do nothing (return normally); otherwise raise a
  RuntimeError carrying the code and a message obtained from the description lookup.
  There is no side effect beyond raising.
\<close>

definition check_status :: "(cudaError_t \<Rightarrow> string) \<Rightarrow> cudaError_t \<Rightarrow> error + unit" where
  "check_status descr err =
     (if err = cudaSuccess then Inr () else Inl (RuntimeError err (descr err)))"

text \<open>
  Modelled from the spec: \<^verbatim>\<open>C10_CUDA_CHECK(EXPR)\<close> evaluates the runtime call
  \<^verbatim>\<open>EXPR\<close> once and passes its status code through the check above.
\<close>

definition C10_CUDA_CHECK ::
  "'r runtime \<Rightarrow> ('r process \<Rightarrow> cudaError_t \<times> 'r process) \<Rightarrow> 'r process \<Rightarrow> ('r, unit) outcome" where
  "C10_CUDA_CHECK rt EXPR p =
     (case EXPR p of (err, p') \<Rightarrow> (check_status (describe rt) err, p'))"

section \<open>Escalation of synchronisations\<close>

text \<open>
  Modelled from the spec: \<^verbatim>\<open>warn_or_error_on_sync()\<close> is declared in the header and
  defined elsewhere. The spec: it inspects the current level and performs the configured
  action: Disabled is a no-op; Warn emits a non-fatal diagnostic and continues; Error
  raises an error immediately. Each entry is recorded as \<open>HookInvoked\<close>.
\<close>

definition warn_or_error_on_sync :: "'r process \<Rightarrow> ('r, unit) outcome" where
  "warn_or_error_on_sync p =
     (let p1 = p\<lparr>trace := trace p @ [HookInvoked]\<rparr> in
      case get_sync_warning_level (warning_state p1) of
        L_DISABLED \<Rightarrow> (Inr (), p1)
      | L_WARN \<Rightarrow> (Inr (), p1\<lparr>trace := trace p1 @ [SyncDiagnostic]\<rparr>)
      | L_ERROR \<Rightarrow> (Inl SyncError, p1))"

section \<open>The inline operations of the header\<close>

text \<open>
  \<^verbatim>\<open>#if defined(HIP_VERSION) && (HIP_VERSION >= 301)\<close>: the build configuration is a
  parameter, \<open>None\<close> when the macro \<^verbatim>\<open>HIP_VERSION\<close> is not defined.
\<close>

definition hip_memcpy_with_stream :: "nat option \<Rightarrow> bool" where
  "hip_memcpy_with_stream HIP_VERSION =
     (case HIP_VERSION of None \<Rightarrow> False | Some v \<Rightarrow> v \<ge> 301)"

text \<open>
  \<^verbatim>\<open>
  if (C10_UNLIKELY(warning_state().get_sync_warning_level() != SyncWarningLevel::L_DISABLED)){
     warn_or_error_on_sync();
  }
  \<close>
  the first statement of both operations (\<^verbatim>\<open>C10_UNLIKELY\<close> is a branch hint).
\<close>

definition sync_policy_check :: "'r process \<Rightarrow> ('r, unit) outcome" where
  "sync_policy_check p =
     (if get_sync_warning_level (warning_state p) \<noteq> L_DISABLED
      then warn_or_error_on_sync p
      else (Inr (), p))"

text \<open>
  \<^verbatim>\<open>
  #if defined(HIP_VERSION) && (HIP_VERSION >= 301)
    C10_CUDA_CHECK(hipMemcpyWithStream(dst, src, nbytes, kind, stream));
  #else
    C10_CUDA_CHECK(cudaMemcpyAsync(dst, src, nbytes, kind, stream));
    C10_CUDA_CHECK(cudaStreamSynchronize(stream));
  #endif
  \<close>
\<close>

definition memcpy_and_sync ::
  "nat option \<Rightarrow> 'r runtime \<Rightarrow> ptr \<Rightarrow> ptr \<Rightarrow> int64_t \<Rightarrow> cudaMemcpyKind \<Rightarrow> cudaStream_t \<Rightarrow>
   'r process \<Rightarrow> ('r, unit) outcome" where
  "memcpy_and_sync HIP_VERSION rt dst src nbytes kind stream =
     and_then sync_policy_check
       (\<lambda>_. if hip_memcpy_with_stream HIP_VERSION
            then C10_CUDA_CHECK rt (hipMemcpyWithStream rt dst src nbytes kind stream)
            else and_then (C10_CUDA_CHECK rt (cudaMemcpyAsync rt dst src nbytes kind stream))
                   (\<lambda>_. C10_CUDA_CHECK rt (cudaStreamSynchronize rt stream)))"

definition stream_synchronize ::
  "'r runtime \<Rightarrow> cudaStream_t \<Rightarrow> 'r process \<Rightarrow> ('r, unit) outcome" where
  "stream_synchronize rt stream =
     and_then sync_policy_check (\<lambda>_. C10_CUDA_CHECK rt (cudaStreamSynchronize rt stream))"

section \<open>The device registry\<close>

text \<open>
  Modelled from the spec: the runtime query behind \<^verbatim>\<open>device_count()\<close>, which is declared
  in the header and defined elsewhere. The spec: every call into the runtime passes its
  status through the error translator.
\<close>

definition query_device_count :: "'r runtime \<Rightarrow> 'r process \<Rightarrow> ('r, int) outcome" where
  "query_device_count rt p =
     (case cudaGetDeviceCount rt p of
        ((err, n), p') \<Rightarrow>
          (case check_status (describe rt) err of
             Inl e \<Rightarrow> (Inl e, p')
           | Inr _ \<Rightarrow> (Inr n, p')))"

text \<open>
  Modelled from the spec: \<^verbatim>\<open>DeviceIndex device_count() noexcept\<close> is declared in the
  header and defined elsewhere. The spec: returns the cached device count; on first call,
  queries the runtime; if that query itself fails, log a one-time diagnostic and
  cache/return 0 rather than propagating an error; subsequent calls return the cached
  value without re-querying.
\<close>

definition device_count :: "'r runtime \<Rightarrow> 'r process \<Rightarrow> ('r, DeviceIndex) outcome" where
  "device_count rt p =
     (case device_count_cache p of
        Some n \<Rightarrow> (Inr n, p)
      | None \<Rightarrow>
          (case query_device_count rt p of
             (Inr n, p') \<Rightarrow> (Inr n, p'\<lparr>device_count_cache := Some n\<rparr>)
           | (Inl e, p') \<Rightarrow>
               (Inr 0, p'\<lparr>device_count_cache := Some 0,
                          trace := trace p' @ [DeviceCountDiagnostic]\<rparr>)))"

text \<open>
  Modelled from the spec: \<^verbatim>\<open>device_count_ensure_non_zero()\<close> is declared in the header
  and defined elsewhere. The spec: calls \<^verbatim>\<open>device_count()\<close>; if the result is 0, raises
  a "no devices available" error.
\<close>

definition device_count_ensure_non_zero ::
  "'r runtime \<Rightarrow> 'r process \<Rightarrow> ('r, DeviceIndex) outcome" where
  "device_count_ensure_non_zero rt =
     and_then (device_count rt)
       (\<lambda>count p. if count = 0 then (Inl NoDevicesError, p) else (Inr count, p))"

text \<open>
  Modelled from the spec: \<^verbatim>\<open>current_device()\<close> is declared in the header and defined
  elsewhere. The spec: queries the runtime for the active device; any failure is
  translated and propagated.
\<close>

definition current_device :: "'r runtime \<Rightarrow> 'r process \<Rightarrow> ('r, DeviceIndex) outcome" where
  "current_device rt p =
     (case cudaGetDevice rt p of
        ((err, d), p') \<Rightarrow>
          (case check_status (describe rt) err of
             Inl e \<Rightarrow> (Inl e, p')
           | Inr _ \<Rightarrow> (Inr d, p')))"

text \<open>
  Modelled from the spec: \<^verbatim>\<open>set_device(device)\<close> is declared in the header and defined
  elsewhere. The spec: requests the runtime switch the active device to the given index;
  the bounds check is the runtime's, an index out of range surfacing as a translated
  RuntimeError.
\<close>

definition set_device :: "'r runtime \<Rightarrow> DeviceIndex \<Rightarrow> 'r process \<Rightarrow> ('r, unit) outcome" where
  "set_device rt device = C10_CUDA_CHECK rt (cudaSetDevice rt device)"

text \<open>
  Modelled from the spec: \<^verbatim>\<open>device_synchronize()\<close> is declared in the header and defined
  elsewhere. The spec: blocks until all outstanding work on the current device completes;
  failure is translated and propagated; the call does not go through the warning state.
\<close>

definition device_synchronize :: "'r runtime \<Rightarrow> 'r process \<Rightarrow> ('r, unit) outcome" where
  "device_synchronize rt = C10_CUDA_CHECK rt (cudaDeviceSynchronize rt)"

section \<open>A process lifetime\<close>

text \<open>
  The operations a caller can invoke, and the state a process is in after a caller has
  invoked a list of them in order, catching whatever each one raises.
\<close>

datatype request =
    Device_count
  | Device_count_ensure_non_zero
  | Current_device
  | Set_device DeviceIndex
  | Device_synchronize
  | Get_sync_warning_level
  | Set_sync_warning_level SyncWarningLevel
  | Memcpy_and_sync ptr ptr int64_t cudaMemcpyKind cudaStream_t
  | Stream_synchronize cudaStream_t

fun serve :: "nat option \<Rightarrow> 'r runtime \<Rightarrow> request \<Rightarrow> 'r process \<Rightarrow> 'r process" where
  "serve hv rt Device_count p = snd (device_count rt p)"
| "serve hv rt Device_count_ensure_non_zero p = snd (device_count_ensure_non_zero rt p)"
| "serve hv rt Current_device p = snd (current_device rt p)"
| "serve hv rt (Set_device d) p = snd (set_device rt d p)"
| "serve hv rt Device_synchronize p = snd (device_synchronize rt p)"
| "serve hv rt Get_sync_warning_level p = p"
| "serve hv rt (Set_sync_warning_level l) p = warning_state_set l p"
| "serve hv rt (Memcpy_and_sync dst src nbytes kind stream) p =
     snd (memcpy_and_sync hv rt dst src nbytes kind stream p)"
| "serve hv rt (Stream_synchronize stream) p = snd (stream_synchronize rt stream p)"

fun serve_all :: "nat option \<Rightarrow> 'r runtime \<Rightarrow> request list \<Rightarrow> 'r process \<Rightarrow> 'r process" where
  "serve_all hv rt [] p = p"
| "serve_all hv rt (q # qs) p = serve_all hv rt qs (serve hv rt q p)"

text \<open>\<^verbatim>\<open>device_count()\<close> called \<open>N\<close> times in a row: the values returned, in order.\<close>

fun device_count_times ::
  "'r runtime \<Rightarrow> nat \<Rightarrow> 'r process \<Rightarrow> (error + DeviceIndex) list \<times> 'r process" where
  "device_count_times rt 0 p = ([], p)"
| "device_count_times rt (Suc N) p =
     (case device_count rt p of
        (v, p') \<Rightarrow> (case device_count_times rt N p' of (vs, p'') \<Rightarrow> (v # vs, p'')))"

section \<open>Simulated runtimes\<close>

text \<open>
  A runtime with two devices, whose hidden state is the active device: every call
  succeeds, but for \<^verbatim>\<open>cudaSetDevice\<close> with an index out of range.
\<close>

definition two_devices :: "int runtime" where
  "two_devices =
     \<lparr>respond = (\<lambda>c d. case c of
          GetDeviceCount \<Rightarrow> ((cudaSuccess, 2), d)
        | GetDevice \<Rightarrow> ((cudaSuccess, d), d)
        | SetDevice i \<Rightarrow> (if 0 \<le> i \<and> i < 2 then ((cudaSuccess, 0), i) else ((101, 0), d))
        | _ \<Rightarrow> ((cudaSuccess, 0), d)),
      describe = (\<lambda>e. ''invalid device ordinal'')\<rparr>"

text \<open>A runtime without a usable driver: every call fails with status 35.\<close>

definition no_driver :: "unit runtime" where
  "no_driver =
     \<lparr>respond = (\<lambda>c u. ((35, 0), u)),
      describe = (\<lambda>e. ''CUDA driver version is insufficient for CUDA runtime version'')\<rparr>"


section \<open>Observations used in the properties\<close>

text \<open>How often the runtime has been asked to enumerate the devices so far.\<close>

definition enumerations :: "'r process \<Rightarrow> nat" where
  "enumerations p = count_list (runtime_calls (trace p)) GetDeviceCount"

text \<open>The requests that are one of the two inline operations.\<close>

fun is_sync_request :: "request \<Rightarrow> bool" where
  "is_sync_request (Memcpy_and_sync dst src nbytes kind stream) = True"
| "is_sync_request (Stream_synchronize stream) = True"
| "is_sync_request _ = False"

section \<open>Auxiliary facts\<close>

lemma runtime_calls_append: "runtime_calls (es @ fs) = runtime_calls es @ runtime_calls fs"
  by (induction es rule: runtime_calls.induct) simp_all

lemmas call_defs =
  runtime_call_def cudaStreamSynchronize_def cudaMemcpyAsync_def hipMemcpyWithStream_def
  cudaDeviceSynchronize_def cudaGetDeviceCount_def cudaGetDevice_def cudaSetDevice_def
  C10_CUDA_CHECK_def

lemmas op_defs =
  stream_synchronize_def memcpy_and_sync_def and_then_def sync_policy_check_def
  warn_or_error_on_sync_def current_device_def set_device_def device_synchronize_def

subsection \<open>The policy check, level by level\<close>

lemma policy_error:
  "get_sync_warning_level (warning_state p) = L_ERROR \<Longrightarrow>
   sync_policy_check p = (Inl SyncError, p\<lparr>trace := trace p @ [HookInvoked]\<rparr>)"
  by (simp add: sync_policy_check_def warn_or_error_on_sync_def get_sync_warning_level_def Let_def)

lemma policy_warn:
  "get_sync_warning_level (warning_state p) = L_WARN \<Longrightarrow>
   sync_policy_check p = (Inr (), p\<lparr>trace := trace p @ [HookInvoked, SyncDiagnostic]\<rparr>)"
  by (simp add: sync_policy_check_def warn_or_error_on_sync_def get_sync_warning_level_def Let_def)

lemma policy_disabled:
  "get_sync_warning_level (warning_state p) = L_DISABLED \<Longrightarrow>
   sync_policy_check p = (Inr (), p)"
  by (simp add: sync_policy_check_def)


lemma disabled_stream_synchronize:
  assumes "get_sync_warning_level (warning_state p) = L_DISABLED"
  shows "hook_invocations (trace (snd (stream_synchronize rt stream p))) =
           hook_invocations (trace p)
       \<and> get_sync_warning_level (warning_state (snd (stream_synchronize rt stream p))) =
           L_DISABLED"
  using assms policy_disabled [OF assms]
  by (simp add: stream_synchronize_def and_then_def call_defs hook_invocations_def
      split: prod.splits sum.splits)

lemma disabled_memcpy_and_sync:
  assumes "get_sync_warning_level (warning_state p) = L_DISABLED"
  shows "hook_invocations (trace (snd (memcpy_and_sync hv rt dst src nbytes kind stream p))) =
           hook_invocations (trace p)
       \<and> get_sync_warning_level
           (warning_state (snd (memcpy_and_sync hv rt dst src nbytes kind stream p))) =
           L_DISABLED"
  using assms policy_disabled [OF assms]
  by (simp add: memcpy_and_sync_def and_then_def call_defs hook_invocations_def
      split: prod.splits sum.splits)

lemma disabled_serve_all:
  "get_sync_warning_level (warning_state p) = L_DISABLED \<Longrightarrow> list_all is_sync_request qs \<Longrightarrow>
   hook_invocations (trace (serve_all hv rt qs p)) = hook_invocations (trace p)"
proof (induction qs arbitrary: p)
  case Nil
  then show ?case by simp
next
  case (Cons q qs)
  from Cons.prems have q: "is_sync_request q" and qs: "list_all is_sync_request qs"
    by simp_all
  from q Cons.prems(1)
  have step: "hook_invocations (trace (serve hv rt q p)) = hook_invocations (trace p)
       \<and> get_sync_warning_level (warning_state (serve hv rt q p)) = L_DISABLED"
    by (cases q) (simp_all add: disabled_stream_synchronize disabled_memcpy_and_sync)
  then have "hook_invocations (trace (serve_all hv rt qs (serve hv rt q p))) =
      hook_invocations (trace (serve hv rt q p))"
    using qs by (simp add: Cons.IH)
  with step show ?case by simp
qed

subsection \<open>The device count and its cache\<close>

lemma device_count_cached:
  "device_count_cache p = Some n \<Longrightarrow> device_count rt p = (Inr n, p)"
  by (simp add: device_count_def)

lemma device_count_first:
  assumes "device_count_cache p = None"
  shows "\<exists>n. fst (device_count rt p) = Inr n
           \<and> device_count_cache (snd (device_count rt p)) = Some n
           \<and> runtime_calls (trace (snd (device_count rt p))) =
               runtime_calls (trace p) @ [GetDeviceCount]"
  using assms
  by (simp add: device_count_def query_device_count_def call_defs runtime_calls_append
      split: prod.splits sum.splits)

lemma device_count_returns: "\<exists>n. fst (device_count rt p) = Inr n"
  by (cases "device_count_cache p") (auto simp: device_count_cached dest: device_count_first)

lemma device_count_caches:
  "fst (device_count rt p) = Inr n \<Longrightarrow> device_count_cache (snd (device_count rt p)) = Some n"
  by (cases "device_count_cache p")
     (auto simp: device_count_cached dest: device_count_first [where rt = rt])

lemma ensure_state: "snd (device_count_ensure_non_zero rt p) = snd (device_count rt p)"
  by (simp add: device_count_ensure_non_zero_def and_then_def split: prod.splits sum.splits)

lemma frame_other:
  "device_count_cache (snd (current_device rt p)) = device_count_cache p"
  "device_count_cache (snd (set_device rt d p)) = device_count_cache p"
  "device_count_cache (snd (device_synchronize rt p)) = device_count_cache p"
  "device_count_cache (snd (stream_synchronize rt stream p)) = device_count_cache p"
  "device_count_cache (snd (memcpy_and_sync hv rt dst src nbytes kind stream p)) =
     device_count_cache p"
  "device_count_cache (warning_state_set l p) = device_count_cache p"
  by (auto simp add: op_defs call_defs warning_state_set_def Let_def
      split: prod.splits sum.splits SyncWarningLevel.splits)

lemma enumerations_other:
  "enumerations (snd (current_device rt p)) = enumerations p"
  "enumerations (snd (set_device rt d p)) = enumerations p"
  "enumerations (snd (device_synchronize rt p)) = enumerations p"
  "enumerations (snd (stream_synchronize rt stream p)) = enumerations p"
  "enumerations (snd (memcpy_and_sync hv rt dst src nbytes kind stream p)) = enumerations p"
  "enumerations (warning_state_set l p) = enumerations p"
  by (auto simp add: enumerations_def op_defs call_defs warning_state_set_def Let_def
      runtime_calls_append split: prod.splits sum.splits SyncWarningLevel.splits)

lemma enumerations_device_count:
  "enumerations (snd (device_count rt p)) =
     (if device_count_cache p = None then Suc (enumerations p) else enumerations p)"
proof (cases "device_count_cache p")
  case None
  then show ?thesis
    using device_count_first [OF None, of rt] by (auto simp: enumerations_def)
next
  case (Some n)
  then show ?thesis by (simp add: device_count_cached)
qed

lemma cache_device_count:
  "device_count_cache p = Some n \<Longrightarrow> device_count_cache (snd (device_count rt p)) = Some n"
  by (simp add: device_count_cached)

lemma serve_keeps_cache:
  "device_count_cache p = Some n \<Longrightarrow> device_count_cache (serve hv rt q p) = Some n"
  by (cases q) (simp_all add: frame_other ensure_state cache_device_count)

lemma serve_all_keeps_cache:
  "device_count_cache p = Some n \<Longrightarrow> device_count_cache (serve_all hv rt qs p) = Some n"
  by (induction qs arbitrary: p) (simp_all add: serve_keeps_cache)

text \<open>
  The invariant of a process: the devices have been enumerated at most once, and not at
  all while the cache is empty.
\<close>

lemma serve_enumerations:
  assumes "device_count_cache p = None \<longrightarrow> enumerations p = 0" and "enumerations p \<le> 1"
  shows "(device_count_cache (serve hv rt q p) = None \<longrightarrow> enumerations (serve hv rt q p) = 0)
       \<and> enumerations (serve hv rt q p) \<le> 1"
proof (cases "device_count_cache p")
  case None
  obtain n where n: "device_count_cache (snd (device_count rt p)) = Some n"
    using device_count_first [OF None, of rt] by blast
  from None assms n show ?thesis
    by (cases q) (simp_all add: frame_other enumerations_other ensure_state
        enumerations_device_count)
next
  case (Some n)
  with assms show ?thesis
    by (cases q) (simp_all add: frame_other enumerations_other ensure_state
        enumerations_device_count cache_device_count)
qed

lemma serve_all_enumerations:
  "(device_count_cache p = None \<longrightarrow> enumerations p = 0) \<Longrightarrow> enumerations p \<le> 1 \<Longrightarrow>
   enumerations (serve_all hv rt qs p) \<le> 1"
proof (induction qs arbitrary: p)
  case Nil
  then show ?case by simp
next
  case (Cons q qs)
  from serve_enumerations [OF Cons.prems, of hv rt q]
  have "device_count_cache (serve hv rt q p) = None \<longrightarrow> enumerations (serve hv rt q p) = 0"
    and "enumerations (serve hv rt q p) \<le> 1"
    by simp_all
  then have "enumerations (serve_all hv rt qs (serve hv rt q p)) \<le> 1"
    by (rule Cons.IH)
  then show ?case by simp
qed

lemma device_count_times_values:
  "fst (device_count_times rt N p) = replicate N (fst (device_count rt p))"
proof (induction N arbitrary: p)
  case 0
  then show ?case by simp
next
  case (Suc N)
  obtain n where n: "fst (device_count rt p) = Inr n"
    using device_count_returns by blast
  then have c: "device_count_cache (snd (device_count rt p)) = Some n"
    by (rule device_count_caches)
  have "fst (device_count rt (snd (device_count rt p))) = Inr n"
    by (simp add: device_count_cached [OF c])
  with n Suc.IH [of "snd (device_count rt p)"] show ?case
    by (simp add: case_prod_unfold)
qed

lemma device_count_times_cached:
  "device_count_cache p = Some n \<Longrightarrow> snd (device_count_times rt N p) = p"
  by (induction N) (simp_all add: device_count_cached case_prod_unfold)

lemma device_count_times_calls:
  "runtime_calls (trace (snd (device_count_times rt N p))) =
     runtime_calls (trace p) @
       (if 0 < N \<and> device_count_cache p = None then [GetDeviceCount] else [])"
proof (cases N)
  case 0
  then show ?thesis by simp
next
  case (Suc M)
  show ?thesis
  proof (cases "device_count_cache p")
    case None
    obtain n where n: "device_count_cache (snd (device_count rt p)) = Some n"
      and t: "runtime_calls (trace (snd (device_count rt p))) =
               runtime_calls (trace p) @ [GetDeviceCount]"
      using device_count_first [OF None, of rt] by blast
    have "snd (device_count_times rt (Suc M) p) =
            snd (device_count_times rt M (snd (device_count rt p)))"
      by (simp add: case_prod_unfold)
    with n t None Suc show ?thesis
      by (simp add: device_count_times_cached)
  next
    case (Some n)
    then show ?thesis by (simp add: device_count_times_cached)
  qed
qed

section \<open>Device count\<close>

text \<open>
  Claim C1. \<^verbatim>\<open>device_count()\<close> never raises an error to its caller: whatever the
  runtime and the process state, it returns a value. When the cache is still empty, so
  that the runtime is asked, and the runtime answers the enumeration with a status other
  than success, it returns 0, caches 0 and logs one diagnostic after the runtime call.
\<close>

theorem device_count_never_raises:
  "(\<exists>n. fst (device_count rt p) = Inr n)
   \<and> (device_count_cache p = None
        \<and> fst (fst (respond rt GetDeviceCount (rt_state p))) \<noteq> cudaSuccess \<longrightarrow>
      fst (device_count rt p) = Inr 0
      \<and> device_count_cache (snd (device_count rt p)) = Some 0
      \<and> trace (snd (device_count rt p)) =
          trace p @ [RuntimeCall GetDeviceCount, DeviceCountDiagnostic])"
proof -
  have "\<exists>n. fst (device_count rt p) = Inr n"
    by (rule device_count_returns)
  moreover have "fst (device_count rt p) = Inr 0
      \<and> device_count_cache (snd (device_count rt p)) = Some 0
      \<and> trace (snd (device_count rt p)) =
          trace p @ [RuntimeCall GetDeviceCount, DeviceCountDiagnostic]"
    if "device_count_cache p = None"
      and "fst (fst (respond rt GetDeviceCount (rt_state p))) \<noteq> cudaSuccess"
    using that
    by (auto simp add: device_count_def query_device_count_def call_defs check_status_def
        split: prod.splits)
  ultimately show ?thesis by blast
qed

text \<open>The first call in a process whose runtime has no usable driver returns 0.\<close>

theorem device_count_never_raises_witness:
  "device_count_cache (process_start ()) = None
   \<and> fst (fst (respond no_driver GetDeviceCount (rt_state (process_start ())))) \<noteq> cudaSuccess
   \<and> fst (device_count no_driver (process_start ())) = Inr 0"
  using device_count_never_raises [of no_driver "process_start ()"]
  by (simp add: process_start_def no_driver_def cudaSuccess_def)

text \<open>
  Claim C3. \<^verbatim>\<open>device_count()\<close> is memoised. Called \<open>N\<close> times in a row from any process
  state, it returns the same value each time, and the \<open>N\<close> calls together ask the runtime
  to enumerate the devices once if the cache was empty (and \<open>N > 0\<close>) and not at all
  otherwise. Whatever requests are served between two calls, the later call returns what
  the earlier one returned. Over a whole process lifetime, from the start of the process
  through any list of requests, the runtime is asked to enumerate the devices at most
  once.
\<close>

theorem device_count_memoized:
  "fst (device_count_times rt N p) = replicate N (fst (device_count rt p))
   \<and> runtime_calls (trace (snd (device_count_times rt N p))) =
       runtime_calls (trace p) @
         (if 0 < N \<and> device_count_cache p = None then [GetDeviceCount] else [])
   \<and> fst (device_count rt (serve_all hv rt qs (snd (device_count rt p)))) =
       fst (device_count rt p)
   \<and> enumerations (serve_all hv rt qs (process_start r)) \<le> 1"
proof -
  obtain n where n: "fst (device_count rt p) = Inr n"
    using device_count_returns by blast
  have "device_count_cache (serve_all hv rt qs (snd (device_count rt p))) = Some n"
    by (rule serve_all_keeps_cache) (rule device_count_caches [OF n])
  then have a: "fst (device_count rt (serve_all hv rt qs (snd (device_count rt p)))) =
       fst (device_count rt p)"
    by (simp add: device_count_cached n)
  have "enumerations (serve_all hv rt qs (process_start r)) \<le> 1"
    by (rule serve_all_enumerations) (simp_all add: enumerations_def process_start_def)
  then show ?thesis
    using a by (simp add: device_count_times_values device_count_times_calls)
qed

text \<open>Three calls against the runtime with two devices: one enumeration, the value 2 thrice.\<close>

theorem device_count_memoized_witness:
  "fst (device_count_times two_devices (Suc (Suc (Suc 0))) (process_start (0::int))) =
     [Inr 2, Inr 2, Inr 2]
   \<and> runtime_calls (trace (snd (device_count_times two_devices (Suc (Suc (Suc 0)))
        (process_start (0::int))))) = [GetDeviceCount]
   \<and> enumerations (serve_all None two_devices
        [Device_count, Stream_synchronize 7, Device_count_ensure_non_zero, Device_count]
        (process_start (0::int))) \<le> 1"
proof -
  have a: "fst (device_count two_devices (process_start (0::int))) = Inr 2"
    by (simp add: device_count_def query_device_count_def call_defs check_status_def
        process_start_def two_devices_def)
  show ?thesis
    using a device_count_memoized [of two_devices "Suc (Suc (Suc 0))" "process_start (0::int)" None
        "[Device_count, Stream_synchronize 7, Device_count_ensure_non_zero, Device_count]" 0]
    by (simp add: process_start_def)
qed

text \<open>
  Claim C4. \<^verbatim>\<open>device_count_ensure_non_zero()\<close> raises \<open>NoDevicesError\<close> exactly when
  \<^verbatim>\<open>device_count()\<close> returns 0, and raises nothing else; when \<^verbatim>\<open>device_count()\<close> returns a
  positive count it returns that count. \<open>NoDevicesError\<close> is not a \<open>RuntimeError\<close>. The
  process state it leaves is the one \<^verbatim>\<open>device_count()\<close> leaves.
\<close>

theorem device_count_ensure_non_zero_raises_iff_zero:
  "(fst (device_count_ensure_non_zero rt p) = Inl NoDevicesError \<longleftrightarrow>
      fst (device_count rt p) = Inr 0)
   \<and> ((\<exists>e. fst (device_count_ensure_non_zero rt p) = Inl e) \<longleftrightarrow>
      fst (device_count rt p) = Inr 0)
   \<and> (fst (device_count rt p) = Inr n \<and> 0 < n \<longrightarrow>
      fst (device_count_ensure_non_zero rt p) = Inr n)
   \<and> NoDevicesError \<noteq> RuntimeError err msg
   \<and> snd (device_count_ensure_non_zero rt p) = snd (device_count rt p)"
proof -
  obtain m where m: "fst (device_count rt p) = Inr m"
    using device_count_returns by blast
  then obtain p' where "device_count rt p = (Inr m, p')"
    by (cases "device_count rt p") simp
  then show ?thesis
    by (auto simp add: device_count_ensure_non_zero_def and_then_def)
qed

text \<open>With two devices the count 2 comes back; without a driver the error is raised.\<close>

theorem device_count_ensure_non_zero_witness:
  "fst (device_count two_devices (process_start (0::int))) = Inr 2 \<and> (0::int) < 2
   \<and> fst (device_count_ensure_non_zero two_devices (process_start (0::int))) = Inr 2
   \<and> fst (device_count no_driver (process_start ())) = Inr 0
   \<and> fst (device_count_ensure_non_zero no_driver (process_start ())) = Inl NoDevicesError"
proof -
  have a: "fst (device_count two_devices (process_start (0::int))) = Inr 2"
    by (simp add: device_count_def query_device_count_def call_defs check_status_def
        process_start_def two_devices_def)
  have b: "fst (device_count no_driver (process_start ())) = Inr 0"
    by (simp add: device_count_def query_device_count_def call_defs check_status_def
        process_start_def no_driver_def cudaSuccess_def)
  show ?thesis
    using a b device_count_ensure_non_zero_raises_iff_zero [of two_devices "process_start (0::int)" 2]
      device_count_ensure_non_zero_raises_iff_zero [of no_driver "process_start ()"]
    by simp
qed

section \<open>Error translation\<close>




section \<open>Warning state\<close>

text \<open>
  Claim C10. A \<^verbatim>\<open>WarningState\<close> holds one \<^verbatim>\<open>SyncWarningLevel\<close> and nothing else: it is
  determined by the level it holds. A freshly constructed one, and so the one a process
  starts with, holds \<^verbatim>\<open>L_DISABLED\<close>. After \<^verbatim>\<open>set_sync_warning_level(l)\<close>,
  \<^verbatim>\<open>get_sync_warning_level()\<close> returns \<open>l\<close>, for every level \<open>l\<close>; the setter changes
  nothing else of the process: not the runtime's state, the device-count cache or the
  trace.
\<close>

theorem WarningState_roundtrip:
  "get_sync_warning_level WarningState_new = L_DISABLED
   \<and> get_sync_warning_level (warning_state (process_start r)) = L_DISABLED
   \<and> w = \<lparr>sync_warning_level = get_sync_warning_level w\<rparr>
   \<and> get_sync_warning_level (set_sync_warning_level l w) = l
   \<and> get_sync_warning_level (warning_state (warning_state_set l p)) = l
   \<and> warning_state_set l p = p\<lparr>warning_state := \<lparr>sync_warning_level = l\<rparr>\<rparr>
   \<and> rt_state (warning_state_set l p) = rt_state p
   \<and> device_count_cache (warning_state_set l p) = device_count_cache p
   \<and> trace (warning_state_set l p) = trace p"
  by (simp add: get_sync_warning_level_def set_sync_warning_level_def WarningState_new_def
      process_start_def warning_state_set_def)

text \<open>Setting the level to \<^verbatim>\<open>L_WARN\<close> and then to \<^verbatim>\<open>L_ERROR\<close> at the start of a process.\<close>

theorem WarningState_roundtrip_witness:
  "get_sync_warning_level (warning_state (process_start (0::int))) = L_DISABLED
   \<and> get_sync_warning_level
       (warning_state (warning_state_set L_ERROR (warning_state_set L_WARN (process_start (0::int)))))
       = L_ERROR
   \<and> trace (warning_state_set L_ERROR (warning_state_set L_WARN (process_start (0::int)))) = []"
proof -
  note outer = WarningState_roundtrip [of "0::int" WarningState_new L_ERROR
      "warning_state_set L_WARN (process_start (0::int))"]
  note inner = WarningState_roundtrip [of "0::int" WarningState_new L_WARN
      "process_start (0::int)"]
  from outer have a: "get_sync_warning_level (warning_state (process_start (0::int))) = L_DISABLED"
    by blast
  from outer have b: "get_sync_warning_level
       (warning_state (warning_state_set L_ERROR (warning_state_set L_WARN (process_start (0::int)))))
       = L_ERROR"
    by blast
  from outer have c: "trace (warning_state_set L_ERROR (warning_state_set L_WARN (process_start (0::int))))
      = trace (warning_state_set L_WARN (process_start (0::int)))"
    by blast
  from inner have d: "trace (warning_state_set L_WARN (process_start (0::int))) =
      trace (process_start (0::int))"
    by blast
  have "trace (process_start (0::int)) = []"
    by (simp add: process_start_def)
  with a b c d show ?thesis by simp
qed

section \<open>Synchronisations under each warning level\<close>

text \<open>
  Claim C2. With the warning level \<^verbatim>\<open>L_ERROR\<close>, \<^verbatim>\<open>stream_synchronize\<close> and
  \<^verbatim>\<open>memcpy_and_sync\<close> (in either build configuration) raise the error of
  \<^verbatim>\<open>warn_or_error_on_sync\<close>, and the only thing that has happened is the entry into that
  hook: no call into the runtime is made and the runtime's state is unchanged.
\<close>

theorem sync_level_error_makes_no_runtime_call:
  assumes "get_sync_warning_level (warning_state p) = L_ERROR"
  shows "stream_synchronize rt stream p = (Inl SyncError, p\<lparr>trace := trace p @ [HookInvoked]\<rparr>)
    \<and> memcpy_and_sync hv rt dst src nbytes kind stream p =
        (Inl SyncError, p\<lparr>trace := trace p @ [HookInvoked]\<rparr>)
    \<and> runtime_calls (trace (snd (stream_synchronize rt stream p))) = runtime_calls (trace p)
    \<and> runtime_calls (trace (snd (memcpy_and_sync hv rt dst src nbytes kind stream p))) =
        runtime_calls (trace p)
    \<and> rt_state (snd (stream_synchronize rt stream p)) = rt_state p
    \<and> rt_state (snd (memcpy_and_sync hv rt dst src nbytes kind stream p)) = rt_state p"
  using policy_error [OF assms]
  by (simp add: stream_synchronize_def memcpy_and_sync_def and_then_def runtime_calls_append)

text \<open>A process that sets the level to \<^verbatim>\<open>L_ERROR\<close> first: both operations raise, no call.\<close>

theorem sync_level_error_witness:
  "get_sync_warning_level (warning_state (warning_state_set L_ERROR (process_start (0::int)))) = L_ERROR
   \<and> fst (stream_synchronize two_devices 7 (warning_state_set L_ERROR (process_start (0::int)))) =
       Inl SyncError
   \<and> fst (memcpy_and_sync None two_devices 1 2 8 cudaMemcpyHostToDevice 7
            (warning_state_set L_ERROR (process_start (0::int)))) = Inl SyncError
   \<and> runtime_calls (trace (snd (stream_synchronize two_devices 7
            (warning_state_set L_ERROR (process_start (0::int)))))) = []
   \<and> runtime_calls (trace (snd (memcpy_and_sync None two_devices 1 2 8 cudaMemcpyHostToDevice 7
            (warning_state_set L_ERROR (process_start (0::int)))))) = []"
proof -
  have h: "get_sync_warning_level
      (warning_state (warning_state_set L_ERROR (process_start (0::int)))) = L_ERROR"
    by (simp add: warning_state_set_def get_sync_warning_level_def set_sync_warning_level_def)
  show ?thesis
    using h sync_level_error_makes_no_runtime_call
      [OF h, of two_devices 7 None 1 2 8 cudaMemcpyHostToDevice]
    by (simp add: warning_state_set_def process_start_def)
qed

text \<open>
  Claim C5. With the warning level \<^verbatim>\<open>L_DISABLED\<close>, neither \<^verbatim>\<open>stream_synchronize\<close> nor
  \<^verbatim>\<open>memcpy_and_sync\<close> enters \<^verbatim>\<open>warn_or_error_on_sync\<close>: the number of hook entries after
  the call is the number before it, and the level is still \<^verbatim>\<open>L_DISABLED\<close>. So the number
  also stays what it was over any list of calls of the two operations.
\<close>

theorem sync_level_disabled_never_invokes_hook:
  assumes "get_sync_warning_level (warning_state p) = L_DISABLED"
  shows "hook_invocations (trace (snd (stream_synchronize rt stream p))) =
           hook_invocations (trace p)
    \<and> hook_invocations (trace (snd (memcpy_and_sync hv rt dst src nbytes kind stream p))) =
        hook_invocations (trace p)
    \<and> get_sync_warning_level (warning_state (snd (stream_synchronize rt stream p))) = L_DISABLED
    \<and> get_sync_warning_level
        (warning_state (snd (memcpy_and_sync hv rt dst src nbytes kind stream p))) = L_DISABLED
    \<and> (list_all is_sync_request qs \<longrightarrow>
         hook_invocations (trace (serve_all hv rt qs p)) = hook_invocations (trace p))"
  using disabled_stream_synchronize [OF assms] disabled_memcpy_and_sync [OF assms]
    disabled_serve_all [OF assms]
  by simp

text \<open>At the start of a process the level is \<^verbatim>\<open>L_DISABLED\<close> and the count stays 0.\<close>

theorem sync_level_disabled_witness:
  "get_sync_warning_level (warning_state (process_start (0::int))) = L_DISABLED
   \<and> list_all is_sync_request
       [Stream_synchronize 7, Memcpy_and_sync 1 2 8 cudaMemcpyDeviceToHost 7]
   \<and> hook_invocations (trace (snd (stream_synchronize two_devices 7 (process_start (0::int))))) = 0
   \<and> hook_invocations (trace (snd (memcpy_and_sync None two_devices 1 2 8
        cudaMemcpyDeviceToHost 7 (process_start (0::int))))) = 0
   \<and> hook_invocations (trace (serve_all None two_devices
        [Stream_synchronize 7, Memcpy_and_sync 1 2 8 cudaMemcpyDeviceToHost 7]
        (process_start (0::int)))) = 0"
proof -
  have h: "get_sync_warning_level (warning_state (process_start (0::int))) = L_DISABLED"
    by (simp add: process_start_def get_sync_warning_level_def WarningState_new_def)
  have t: "hook_invocations (trace (process_start (0::int))) = 0"
    by (simp add: process_start_def hook_invocations_def)
  show ?thesis
    using h t sync_level_disabled_never_invokes_hook
      [OF h, of two_devices 7 None 1 2 8 cudaMemcpyDeviceToHost
        "[Stream_synchronize 7, Memcpy_and_sync 1 2 8 cudaMemcpyDeviceToHost 7]"]
    by simp
qed

text \<open>
  Claim C6. With the warning level \<^verbatim>\<open>L_WARN\<close>, \<^verbatim>\<open>stream_synchronize\<close> enters the hook,
  which logs a diagnostic and returns; the runtime's stream synchronise is then called:
  the runtime moves to the state its answer gives, the trace is the hook entry, the
  diagnostic and the call, and the outcome is the translation of the status answered, so
  the operation returns normally when the runtime answers success and raises that status
  otherwise. The same holds of \<^verbatim>\<open>memcpy_and_sync\<close>: after the hook and its diagnostic,
  the combined copy is called where the build has it, and otherwise the asynchronous copy
  and, once that has succeeded, the stream synchronise in the state the copy left; the
  outcome is the translation of the last status answered. The premises name the
  runtime's answers.
\<close>

theorem sync_level_warn_still_calls_runtime:
  assumes "get_sync_warning_level (warning_state p) = L_WARN"
    and "respond rt (StreamSynchronize stream) (rt_state p) = ((err, out), r)"
    and "respond rt (MemcpyWithStream dst src nbytes kind stream) (rt_state p) =
           ((errh, outh), rh)"
    and "respond rt (MemcpyAsync dst src nbytes kind stream) (rt_state p) = ((err1, out1), r1)"
    and "respond rt (StreamSynchronize stream) r1 = ((err2, out2), r2)"
  shows "stream_synchronize rt stream p =
           (check_status (describe rt) err,
            p\<lparr>rt_state := r,
              trace := trace p @
                [HookInvoked, SyncDiagnostic, RuntimeCall (StreamSynchronize stream)]\<rparr>)
    \<and> trace (snd (stream_synchronize rt stream p)) =
           trace p @ [HookInvoked, SyncDiagnostic, RuntimeCall (StreamSynchronize stream)]
    \<and> rt_state (snd (stream_synchronize rt stream p)) = r
    \<and> (err = cudaSuccess \<longrightarrow> fst (stream_synchronize rt stream p) = Inr ())
    \<and> (err \<noteq> cudaSuccess \<longrightarrow>
         fst (stream_synchronize rt stream p) = Inl (RuntimeError err (describe rt err)))
    \<and> (hip_memcpy_with_stream hv \<longrightarrow>
         memcpy_and_sync hv rt dst src nbytes kind stream p =
           (check_status (describe rt) errh,
            p\<lparr>rt_state := rh,
              trace := trace p @
                [HookInvoked, SyncDiagnostic,
                 RuntimeCall (MemcpyWithStream dst src nbytes kind stream)]\<rparr>)
         \<and> trace (snd (memcpy_and_sync hv rt dst src nbytes kind stream p)) =
           trace p @ [HookInvoked, SyncDiagnostic,
                      RuntimeCall (MemcpyWithStream dst src nbytes kind stream)]
         \<and> (errh = cudaSuccess \<longrightarrow>
              fst (memcpy_and_sync hv rt dst src nbytes kind stream p) = Inr ()))
    \<and> (\<not> hip_memcpy_with_stream hv \<and> err1 = cudaSuccess \<longrightarrow>
         memcpy_and_sync hv rt dst src nbytes kind stream p =
           (check_status (describe rt) err2,
            p\<lparr>rt_state := r2,
              trace := trace p @
                [HookInvoked, SyncDiagnostic,
                 RuntimeCall (MemcpyAsync dst src nbytes kind stream),
                 RuntimeCall (StreamSynchronize stream)]\<rparr>)
         \<and> trace (snd (memcpy_and_sync hv rt dst src nbytes kind stream p)) =
           trace p @ [HookInvoked, SyncDiagnostic,
                      RuntimeCall (MemcpyAsync dst src nbytes kind stream),
                      RuntimeCall (StreamSynchronize stream)]
         \<and> (err2 = cudaSuccess \<longrightarrow>
              fst (memcpy_and_sync hv rt dst src nbytes kind stream p) = Inr ()))
    \<and> (\<not> hip_memcpy_with_stream hv \<and> err1 \<noteq> cudaSuccess \<longrightarrow>
         memcpy_and_sync hv rt dst src nbytes kind stream p =
           (Inl (RuntimeError err1 (describe rt err1)),
            p\<lparr>rt_state := r1,
              trace := trace p @
                [HookInvoked, SyncDiagnostic,
                 RuntimeCall (MemcpyAsync dst src nbytes kind stream)]\<rparr>))"
  using assms(2-) policy_warn [OF assms(1)]
  by (simp add: stream_synchronize_def memcpy_and_sync_def and_then_def call_defs
      check_status_def)

text \<open>
  A process that sets the level to \<^verbatim>\<open>L_WARN\<close> first, on the runtime with two devices, in
  a build without and in a build with the combined copy.
\<close>

theorem sync_level_warn_witness:
  "get_sync_warning_level (warning_state (warning_state_set L_WARN (process_start (0::int)))) =
     L_WARN
   \<and> respond two_devices (StreamSynchronize 7)
        (rt_state (warning_state_set L_WARN (process_start (0::int)))) = ((cudaSuccess, 0), 0)
   \<and> respond two_devices (MemcpyWithStream 1 2 8 cudaMemcpyHostToDevice 7)
        (rt_state (warning_state_set L_WARN (process_start (0::int)))) = ((cudaSuccess, 0), 0)
   \<and> respond two_devices (MemcpyAsync 1 2 8 cudaMemcpyHostToDevice 7)
        (rt_state (warning_state_set L_WARN (process_start (0::int)))) = ((cudaSuccess, 0), 0)
   \<and> respond two_devices (StreamSynchronize 7) 0 = ((cudaSuccess, 0), 0)
   \<and> \<not> hip_memcpy_with_stream None \<and> hip_memcpy_with_stream (Some 301)
   \<and> fst (stream_synchronize two_devices 7
        (warning_state_set L_WARN (process_start (0::int)))) = Inr ()
   \<and> trace (snd (stream_synchronize two_devices 7
        (warning_state_set L_WARN (process_start (0::int))))) =
       [HookInvoked, SyncDiagnostic, RuntimeCall (StreamSynchronize 7)]
   \<and> fst (memcpy_and_sync None two_devices 1 2 8 cudaMemcpyHostToDevice 7
        (warning_state_set L_WARN (process_start (0::int)))) = Inr ()
   \<and> trace (snd (memcpy_and_sync None two_devices 1 2 8 cudaMemcpyHostToDevice 7
        (warning_state_set L_WARN (process_start (0::int))))) =
       [HookInvoked, SyncDiagnostic, RuntimeCall (MemcpyAsync 1 2 8 cudaMemcpyHostToDevice 7),
        RuntimeCall (StreamSynchronize 7)]
   \<and> fst (memcpy_and_sync (Some 301) two_devices 1 2 8 cudaMemcpyHostToDevice 7
        (warning_state_set L_WARN (process_start (0::int)))) = Inr ()
   \<and> trace (snd (memcpy_and_sync (Some 301) two_devices 1 2 8 cudaMemcpyHostToDevice 7
        (warning_state_set L_WARN (process_start (0::int))))) =
       [HookInvoked, SyncDiagnostic,
        RuntimeCall (MemcpyWithStream 1 2 8 cudaMemcpyHostToDevice 7)]"
proof -
  let ?p = "warning_state_set L_WARN (process_start (0::int))"
  have h: "get_sync_warning_level (warning_state ?p) = L_WARN"
    by (simp add: warning_state_set_def get_sync_warning_level_def set_sync_warning_level_def)
  have s: "rt_state ?p = 0" and t: "trace ?p = []"
    by (simp_all add: warning_state_set_def process_start_def)
  have a: "respond two_devices (StreamSynchronize 7) (rt_state ?p) = ((cudaSuccess, 0), 0)"
    by (simp add: s two_devices_def)
  have b: "respond two_devices (MemcpyWithStream 1 2 8 cudaMemcpyHostToDevice 7) (rt_state ?p) =
      ((cudaSuccess, 0), 0)"
    by (simp add: s two_devices_def)
  have c: "respond two_devices (MemcpyAsync 1 2 8 cudaMemcpyHostToDevice 7) (rt_state ?p) =
      ((cudaSuccess, 0), 0)"
    by (simp add: s two_devices_def)
  have d: "respond two_devices (StreamSynchronize 7) 0 = ((cudaSuccess, 0), 0)"
    by (simp add: two_devices_def)
  have e: "\<not> hip_memcpy_with_stream None" and f: "hip_memcpy_with_stream (Some 301)"
    by (simp_all add: hip_memcpy_with_stream_def)
  have k: "check_status (describe two_devices) cudaSuccess = Inr ()"
    by (simp add: check_status_def)
  note plain = sync_level_warn_still_calls_runtime [OF h a b c d, of None]
  note hip = sync_level_warn_still_calls_runtime [OF h a b c d, of "Some 301"]
  from plain have "stream_synchronize two_devices 7 ?p =
      (check_status (describe two_devices) cudaSuccess,
       ?p\<lparr>rt_state := 0,
         trace := trace ?p @ [HookInvoked, SyncDiagnostic, RuntimeCall (StreamSynchronize 7)]\<rparr>)"
    by (elim conjE)
  then have 1: "fst (stream_synchronize two_devices 7 ?p) = Inr ()"
    and 2: "trace (snd (stream_synchronize two_devices 7 ?p)) =
       [HookInvoked, SyncDiagnostic, RuntimeCall (StreamSynchronize 7)]"
    by (simp_all add: k t)
  from plain e have "memcpy_and_sync None two_devices 1 2 8 cudaMemcpyHostToDevice 7 ?p =
      (check_status (describe two_devices) cudaSuccess,
       ?p\<lparr>rt_state := 0,
         trace := trace ?p @ [HookInvoked, SyncDiagnostic,
           RuntimeCall (MemcpyAsync 1 2 8 cudaMemcpyHostToDevice 7),
           RuntimeCall (StreamSynchronize 7)]\<rparr>)"
    by blast
  then have 3: "fst (memcpy_and_sync None two_devices 1 2 8 cudaMemcpyHostToDevice 7 ?p) = Inr ()"
    and 4: "trace (snd (memcpy_and_sync None two_devices 1 2 8 cudaMemcpyHostToDevice 7 ?p)) =
       [HookInvoked, SyncDiagnostic, RuntimeCall (MemcpyAsync 1 2 8 cudaMemcpyHostToDevice 7),
        RuntimeCall (StreamSynchronize 7)]"
    by (simp_all add: k t)
  from hip f have "memcpy_and_sync (Some 301) two_devices 1 2 8 cudaMemcpyHostToDevice 7 ?p =
      (check_status (describe two_devices) cudaSuccess,
       ?p\<lparr>rt_state := 0,
         trace := trace ?p @ [HookInvoked, SyncDiagnostic,
           RuntimeCall (MemcpyWithStream 1 2 8 cudaMemcpyHostToDevice 7)]\<rparr>)"
    by blast
  then have 5: "fst (memcpy_and_sync (Some 301) two_devices 1 2 8 cudaMemcpyHostToDevice 7 ?p) =
      Inr ()"
    and 6: "trace (snd (memcpy_and_sync (Some 301) two_devices 1 2 8 cudaMemcpyHostToDevice 7 ?p)) =
       [HookInvoked, SyncDiagnostic,
        RuntimeCall (MemcpyWithStream 1 2 8 cudaMemcpyHostToDevice 7)]"
    by (simp_all add: k t)
  show ?thesis
    by (intro conjI h a b c d e f 1 2 3 4 5 6)
qed

section \<open>The runtime calls of the copy\<close>

text \<open>
  Claim C8. \<^verbatim>\<open>memcpy_and_sync\<close>, once the policy check has let it pass (the level is not
  \<^verbatim>\<open>L_ERROR\<close>). In a build with the combined copy it makes that one runtime call, and its
  outcome is the translation of that call's status. Otherwise it makes two runtime calls
  in sequence, the asynchronous copy of \<open>nbytes\<close> bytes and then the synchronise of the
  given stream, and its outcome is the translation of the synchronise's status. A failure
  of either call is raised as the call's own \<open>RuntimeError\<close>; a failed copy is raised at
  once, so that nothing follows it: no synchronise and no attempt at recovery. The
  premises name the runtime's answers.
\<close>

theorem memcpy_and_sync_runtime_calls:
  assumes "get_sync_warning_level (warning_state p) \<noteq> L_ERROR"
    and "respond rt (MemcpyWithStream dst src nbytes kind stream) (rt_state p) =
           ((errh, outh), rh)"
    and "respond rt (MemcpyAsync dst src nbytes kind stream) (rt_state p) = ((err1, out1), r1)"
    and "respond rt (StreamSynchronize stream) r1 = ((err2, out2), r2)"
  shows "(hip_memcpy_with_stream hv \<longrightarrow>
         runtime_calls (trace (snd (memcpy_and_sync hv rt dst src nbytes kind stream p))) =
           runtime_calls (trace p) @ [MemcpyWithStream dst src nbytes kind stream]
         \<and> fst (memcpy_and_sync hv rt dst src nbytes kind stream p) =
             check_status (describe rt) errh
         \<and> rt_state (snd (memcpy_and_sync hv rt dst src nbytes kind stream p)) = rh)
    \<and> (\<not> hip_memcpy_with_stream hv \<and> err1 = cudaSuccess \<longrightarrow>
         runtime_calls (trace (snd (memcpy_and_sync hv rt dst src nbytes kind stream p))) =
           runtime_calls (trace p) @
             [MemcpyAsync dst src nbytes kind stream, StreamSynchronize stream]
         \<and> fst (memcpy_and_sync hv rt dst src nbytes kind stream p) =
             check_status (describe rt) err2
         \<and> rt_state (snd (memcpy_and_sync hv rt dst src nbytes kind stream p)) = r2)
    \<and> (\<not> hip_memcpy_with_stream hv \<and> err1 \<noteq> cudaSuccess \<longrightarrow>
         runtime_calls (trace (snd (memcpy_and_sync hv rt dst src nbytes kind stream p))) =
           runtime_calls (trace p) @ [MemcpyAsync dst src nbytes kind stream]
         \<and> fst (memcpy_and_sync hv rt dst src nbytes kind stream p) =
             Inl (RuntimeError err1 (describe rt err1))
         \<and> rt_state (snd (memcpy_and_sync hv rt dst src nbytes kind stream p)) = r1)"
proof (cases "get_sync_warning_level (warning_state p)")
  case L_DISABLED
  from assms(2-) policy_disabled [OF L_DISABLED] show ?thesis
    by (simp add: memcpy_and_sync_def and_then_def call_defs check_status_def
        runtime_calls_append)
next
  case L_WARN
  from assms(2-) policy_warn [OF L_WARN] show ?thesis
    by (simp add: memcpy_and_sync_def and_then_def call_defs check_status_def
        runtime_calls_append)
next
  case L_ERROR
  with assms(1) show ?thesis by simp
qed

text \<open>
  At the start of a process on the runtime with two devices: two calls without the
  combined copy, one call with it, and no error. On the runtime without a driver the copy
  fails with status 35: one call, and that status raised.
\<close>

theorem memcpy_and_sync_runtime_calls_witness:
  "get_sync_warning_level (warning_state (process_start (0::int))) \<noteq> L_ERROR
   \<and> respond two_devices (MemcpyWithStream 1 2 8 cudaMemcpyHostToDevice 7)
        (rt_state (process_start (0::int))) = ((cudaSuccess, 0), 0)
   \<and> respond two_devices (MemcpyAsync 1 2 8 cudaMemcpyHostToDevice 7)
        (rt_state (process_start (0::int))) = ((cudaSuccess, 0), 0)
   \<and> respond two_devices (StreamSynchronize 7) 0 = ((cudaSuccess, 0), 0)
   \<and> \<not> hip_memcpy_with_stream None \<and> hip_memcpy_with_stream (Some 301)
   \<and> runtime_calls (trace (snd (memcpy_and_sync None two_devices 1 2 8 cudaMemcpyHostToDevice 7
        (process_start (0::int))))) =
       [MemcpyAsync 1 2 8 cudaMemcpyHostToDevice 7, StreamSynchronize 7]
   \<and> fst (memcpy_and_sync None two_devices 1 2 8 cudaMemcpyHostToDevice 7
        (process_start (0::int))) = Inr ()
   \<and> runtime_calls (trace (snd (memcpy_and_sync (Some 301) two_devices 1 2 8
        cudaMemcpyHostToDevice 7 (process_start (0::int))))) =
       [MemcpyWithStream 1 2 8 cudaMemcpyHostToDevice 7]
   \<and> fst (memcpy_and_sync (Some 301) two_devices 1 2 8 cudaMemcpyHostToDevice 7
        (process_start (0::int))) = Inr ()
   \<and> get_sync_warning_level (warning_state (process_start ())) \<noteq> L_ERROR
   \<and> respond no_driver (MemcpyAsync 1 2 8 cudaMemcpyHostToDevice 7)
        (rt_state (process_start ())) = ((35, 0), ())
   \<and> (35::int) \<noteq> cudaSuccess
   \<and> runtime_calls (trace (snd (memcpy_and_sync None no_driver 1 2 8 cudaMemcpyHostToDevice 7
        (process_start ())))) = [MemcpyAsync 1 2 8 cudaMemcpyHostToDevice 7]
   \<and> fst (memcpy_and_sync None no_driver 1 2 8 cudaMemcpyHostToDevice 7 (process_start ())) =
       Inl (RuntimeError 35 ''CUDA driver version is insufficient for CUDA runtime version'')"
proof -
  let ?p = "process_start (0::int)"
  have h: "get_sync_warning_level (warning_state ?p) \<noteq> L_ERROR"
    by (simp add: process_start_def get_sync_warning_level_def WarningState_new_def)
  have s: "rt_state ?p = 0" and t: "trace ?p = []"
    by (simp_all add: process_start_def)
  have b: "respond two_devices (MemcpyWithStream 1 2 8 cudaMemcpyHostToDevice 7) (rt_state ?p) =
      ((cudaSuccess, 0), 0)"
    by (simp add: s two_devices_def)
  have c: "respond two_devices (MemcpyAsync 1 2 8 cudaMemcpyHostToDevice 7) (rt_state ?p) =
      ((cudaSuccess, 0), 0)"
    by (simp add: s two_devices_def)
  have d: "respond two_devices (StreamSynchronize 7) 0 = ((cudaSuccess, 0), 0)"
    by (simp add: two_devices_def)
  have e: "\<not> hip_memcpy_with_stream None" and f: "hip_memcpy_with_stream (Some 301)"
    by (simp_all add: hip_memcpy_with_stream_def)
  let ?q = "process_start ()"
  have h': "get_sync_warning_level (warning_state ?q) \<noteq> L_ERROR"
    by (simp add: process_start_def get_sync_warning_level_def WarningState_new_def)
  have t': "trace ?q = []"
    by (simp add: process_start_def)
  have b': "respond no_driver (MemcpyWithStream 1 2 8 cudaMemcpyHostToDevice 7) (rt_state ?q) =
      ((35, 0), ())"
    by (simp add: no_driver_def)
  have c': "respond no_driver (MemcpyAsync 1 2 8 cudaMemcpyHostToDevice 7) (rt_state ?q) =
      ((35, 0), ())"
    by (simp add: no_driver_def)
  have d': "respond no_driver (StreamSynchronize 7) () = ((35, 0), ())"
    by (simp add: no_driver_def)
  have g: "(35::int) \<noteq> cudaSuccess"
    by (simp add: cudaSuccess_def)
  have m: "describe no_driver 35 =
      ''CUDA driver version is insufficient for CUDA runtime version''"
    by (simp add: no_driver_def)
  from memcpy_and_sync_runtime_calls [OF h b c d, of None]
    memcpy_and_sync_runtime_calls [OF h b c d, of "Some 301"]
    memcpy_and_sync_runtime_calls [OF h' b' c' d', of None]
  show ?thesis
    unfolding t t' m using h b c d e f h' c' g by (simp add: check_status_def)
qed

section \<open>Device-wide synchronisation\<close>

text \<open>
  Claim C9. \<^verbatim>\<open>device_synchronize()\<close> does not go through the warning state. Whatever
  level is set, \<^verbatim>\<open>L_ERROR\<close> included, its outcome is the same and is the translation of
  the status of the runtime's device-wide synchronise; that call is the one event it adds
  to the trace, so the hook is not entered; and it leaves the warning state as it was.
\<close>

theorem device_synchronize_bypasses_warning_state:
  "device_synchronize rt (warning_state_set l p) =
     (fst (device_synchronize rt p), warning_state_set l (snd (device_synchronize rt p)))
   \<and> trace (snd (device_synchronize rt p)) = trace p @ [RuntimeCall DeviceSynchronize]
   \<and> hook_invocations (trace (snd (device_synchronize rt p))) = hook_invocations (trace p)
   \<and> warning_state (snd (device_synchronize rt p)) = warning_state p
   \<and> fst (device_synchronize rt p) =
       check_status (describe rt) (fst (fst (respond rt DeviceSynchronize (rt_state p))))"
  by (simp add: device_synchronize_def call_defs warning_state_set_def hook_invocations_def
      split: prod.splits)

text \<open>Under \<^verbatim>\<open>L_ERROR\<close> on the runtime with two devices: one runtime call, no error.\<close>

theorem device_synchronize_witness:
  "fst (device_synchronize two_devices (warning_state_set L_ERROR (process_start (0::int)))) =
     Inr ()
   \<and> trace (snd (device_synchronize two_devices
        (warning_state_set L_ERROR (process_start (0::int))))) =
       [RuntimeCall DeviceSynchronize]
   \<and> hook_invocations (trace (snd (device_synchronize two_devices
        (warning_state_set L_ERROR (process_start (0::int)))))) = 0"
proof -
  let ?p = "warning_state_set L_ERROR (process_start (0::int))"
  have s: "rt_state ?p = 0" and t: "trace ?p = []"
    by (simp_all add: warning_state_set_def process_start_def)
  have d: "respond two_devices DeviceSynchronize 0 = ((cudaSuccess, 0), 0)"
    by (simp add: two_devices_def)
  from device_synchronize_bypasses_warning_state [of two_devices L_ERROR ?p]
  show ?thesis
    unfolding s t using d by (simp add: check_status_def hook_invocations_def)
qed

end
